theory Spec2Isabelle
  imports Main "HOL-Library.Sublist"
begin

section \<open>distutils.cygwinccompiler\<close>

text \<open>
  A shallow embedding of \<^verbatim>\<open>distutils/cygwinccompiler.py\<close>. Python text (\<^verbatim>\<open>str\<close>) and
  \<^verbatim>\<open>bytes\<close> are both modelled as \<^typ>\<open>string\<close>; a character stands for the code point
  (or byte) of the same number, so the texts covered are those of code points below 256.
  On these the class \<^verbatim>\<open>\d\<close> of the \<^verbatim>\<open>re\<close> module is exactly the ten ASCII digits.
\<close>

subsection \<open>Exceptions\<close>

datatype error =
    ValueError string
  | KeyError nat
  | AttributeError string
  | OSError string
  | DistutilsPlatformError string
  | CCompilerError string
  | OtherError string

subsection \<open>Text helpers of the Python runtime\<close>

definition is_digit :: "char \<Rightarrow> bool" where
  "is_digit c = (48 \<le> (of_char c :: nat) \<and> (of_char c :: nat) \<le> 57)"

definition digit_val :: "char \<Rightarrow> nat" where
  "digit_val c = (of_char c :: nat) - 48"

text \<open>\<^verbatim>\<open>int(s)\<close> on a text of decimal digits.\<close>

definition int_of_digits :: "string \<Rightarrow> nat" where
  "int_of_digits ds = foldl (\<lambda>a c. 10 * a + digit_val c) 0 ds"

text \<open>\<^verbatim>\<open>"%s" % n\<close> for a non-negative integer: decimal digits, no leading zero.\<close>

fun str_nat :: "nat \<Rightarrow> string" where
  "str_nat n =
     (if n < 10 then [char_of (48 + n)]
      else str_nat (n div 10) @ [char_of (48 + n mod 10)])"

declare str_nat.simps [simp del]

text \<open>\<^verbatim>\<open>needle in haystack\<close> on texts.\<close>

fun contains :: "string \<Rightarrow> string \<Rightarrow> bool" where
  "contains needle [] = (needle = [])"
| "contains needle (c # cs) = (prefix needle (c # cs) \<or> contains needle cs)"

subsection \<open>The pattern \<^verbatim>\<open>MSC v\.(\d{4})\<close>\<close>

text \<open>
  \<^verbatim>\<open>re.search(r'MSC v\.(\d{4})', s)\<close> scans the start positions from the left and matches
  at the first one where the six literal characters are followed by four digits.
  \<open>match_here\<close> is the match anchored at the head of the text, giving group 1;
  \<open>re_search\<close> is the scan. \<open>None\<close> is Python's \<^verbatim>\<open>None\<close> (no match object).
\<close>

definition match_here :: "string \<Rightarrow> string option" where
  "match_here s =
     (if take 6 s = ''MSC v.'' \<and> length (take 4 (drop 6 s)) = 4
         \<and> list_all is_digit (take 4 (drop 6 s))
      then Some (take 4 (drop 6 s)) else None)"

fun re_search :: "string \<Rightarrow> string option" where
  "re_search [] = match_here []"
| "re_search (c # cs) =
     (case match_here (c # cs) of Some g \<Rightarrow> Some g | None \<Rightarrow> re_search cs)"

text \<open>
  The property "the pattern occurs in the text", as a statement about the text alone:
  it splits into a prefix, the marker, four digits and a rest.
\<close>

definition msc_pattern_occurs :: "string \<Rightarrow> bool" where
  "msc_pattern_occurs s =
     (\<exists>pre ds post. s = pre @ ''MSC v.'' @ ds @ post \<and> length ds = 4 \<and> list_all is_digit ds)"

subsection \<open>The range map\<close>

text \<open>
  Modelled from the spec: the class \<^verbatim>\<open>RangeMap\<close> of \<^verbatim>\<open>distutils._collections\<close> is not
  among the sources. The specification describes the table as "a set of half-open integer
  ranges with ascending boundaries", "an ordered list of (lower-bound, value) pairs searched
  via the greatest lower bound"; "versions at or above the final boundary are explicitly
  undefined and must signal a distinct unknown-version failure", and "an unrecognized
  version number outside all known ranges" is the same failure. So a lookup takes the
  greatest key that is at most the item; it fails with \<open>KeyError\<close> when there is no such
  key or when the value stored under it is the undefined marker. The table is the
  dictionary literal as a list of pairs, where a later pair overrides an earlier one with
  the same key.
\<close>

datatype 'a range_value = Defined 'a | undefined_value

definition RangeMap_left_getitem :: "(nat \<times> 'a range_value) list \<Rightarrow> nat \<Rightarrow> error + 'a" where
  "RangeMap_left_getitem source item =
     (case find (\<lambda>k. k \<le> item) (rev (sort (map fst source))) of
        None \<Rightarrow> Inl (KeyError item)
      | Some key \<Rightarrow>
          (case map_of (rev source) key of
             None \<Rightarrow> Inl (KeyError key)
           | Some undefined_value \<Rightarrow> Inl (KeyError key)
           | Some (Defined v) \<Rightarrow> Inr v))"

text \<open>The dictionary literal of the source, in its order.\<close>

definition msvcr_lookup :: "(nat \<times> string list range_value) list" where
  "msvcr_lookup =
     [(1300, Defined [''msvcr70'']),
      (1310, Defined [''msvcr71'']),
      (1400, Defined [''msvcr80'']),
      (1500, Defined [''msvcr90'']),
      (1600, Defined [''msvcr100'']),
      (1700, Defined [''msvcr110'']),
      (1800, Defined [''msvcr120'']),
      (1900, Defined [''vcruntime140'']),
      (2000, undefined_value)]"

subsection \<open>\<^verbatim>\<open>get_msvcr\<close>\<close>

text \<open>
  The argument is \<^verbatim>\<open>sys.version\<close>. \<open>Inr None\<close> is the bare \<^verbatim>\<open>return\<close> taken when
  \<^verbatim>\<open>match\<close> is \<^verbatim>\<open>None\<close> (the \<^verbatim>\<open>AttributeError\<close> of \<^verbatim>\<open>match.group\<close> is caught);
  every \<^verbatim>\<open>KeyError\<close> of the lookup is turned into the \<^verbatim>\<open>ValueError\<close>.
\<close>

definition msc_ver :: "string \<Rightarrow> nat option" where
  "msc_ver sys_version = map_option int_of_digits (re_search sys_version)"

definition unknown_version_msg :: "nat \<Rightarrow> string" where
  "unknown_version_msg v = ''Unknown MS Compiler version '' @ str_nat v @ '' ''"

definition get_msvcr :: "string \<Rightarrow> error + string list option" where
  "get_msvcr sys_version =
     (case msc_ver sys_version of
        None \<Rightarrow> Inr None
      | Some v \<Rightarrow>
          (case RangeMap_left_getitem msvcr_lookup v of
             Inr libs \<Rightarrow> Inr (Some libs)
           | Inl (KeyError k) \<Rightarrow> Inl (ValueError (unknown_version_msg v))
           | Inl e \<Rightarrow> Inl e))"

text \<open>The ranges as the specification lists them: lower bound, upper bound (excluded), libraries.\<close>

definition msvcr_ranges :: "(nat \<times> nat \<times> string list) list" where
  "msvcr_ranges =
     [(1300, 1310, [''msvcr70'']),
      (1310, 1400, [''msvcr71'']),
      (1400, 1500, [''msvcr80'']),
      (1500, 1600, [''msvcr90'']),
      (1600, 1700, [''msvcr100'']),
      (1700, 1800, [''msvcr110'']),
      (1800, 1900, [''msvcr120'']),
      (1900, 2000, [''vcruntime140''])]"

subsection \<open>The compiler classes\<close>

definition runtime_library_dirs_msg :: string where
  "runtime_library_dirs_msg =
     ''Unable to set runtime library search path on Windows, '' @
     ''usually indicated by `runtime_library_dirs` parameter to Extension''"

text \<open>The positional arguments of \<^verbatim>\<open>link\<close>; \<open>None\<close> is Python's \<^verbatim>\<open>None\<close>.\<close>

record link_args =
  target_desc :: string
  objects :: "string list"
  output_filename :: string
  output_dir :: "string option"
  libraries :: "string list option"
  library_dirs :: "string list option"
  runtime_library_dirs :: "string list option"
  export_symbols :: "string list option"
  debug :: int
  extra_preargs :: "string list option"
  extra_postargs :: "string list option"
  build_temp :: "string option"
  target_lang :: "string option"

text \<open>The keyword arguments that \<^verbatim>\<open>Mingw32CCompiler.__init__\<close> gives to \<^verbatim>\<open>set_executables\<close>.\<close>

record executables =
  compiler :: string
  compiler_so :: string
  compiler_cxx :: string
  linker_exe :: string
  linker_so :: string

text \<open>
  The attributes that the constructor reads from the object once the inherited
  constructor has run; \<open>None\<close> is an attribute that is not set, whose read raises
  \<^verbatim>\<open>AttributeError\<close>.
\<close>

record compiler_attrs =
  cc :: "string option"
  cxx :: "string option"
  linker_dll :: "string option"

text \<open>
  What a method does to the outside, in order: warnings given to \<^verbatim>\<open>self.warn\<close> and the
  calls it makes itself to the collaborators below.
\<close>

datatype event =
    Warn string
  | Call_UnixCCompiler_link link_args
  | Call_super_init int int int
  | Call_check_output "string list"
  | Call_set_executables executables

text \<open>
  The collaborators outside this module, as parameters: the base class's \<^verbatim>\<open>link\<close>
  (returns nothing or raises), the inherited constructor (gives the object's attributes or
  raises), \<^verbatim>\<open>set_executables\<close>, \<^verbatim>\<open>shlex.split\<close> and \<^verbatim>\<open>subprocess.check_output\<close>
  (the captured standard output, or the exception of a failed run).
\<close>

record collaborators =
  UnixCCompiler_link :: "link_args \<Rightarrow> error option"
  super_init :: "int \<Rightarrow> int \<Rightarrow> int \<Rightarrow> error + compiler_attrs"
  set_executables :: "executables \<Rightarrow> error option"
  shlex_split :: "string \<Rightarrow> error + string list"
  check_output :: "string list \<Rightarrow> error + string"

text \<open>Truth value of a list-or-\<^verbatim>\<open>None\<close> argument in an \<^verbatim>\<open>if\<close>.\<close>

fun truthy :: "'a list option \<Rightarrow> bool" where
  "truthy None = False"
| "truthy (Some []) = False"
| "truthy (Some (x # xs)) = True"

definition CygwinCCompiler_link ::
  "collaborators \<Rightarrow> link_args \<Rightarrow> (error + unit) \<times> event list" where
  "CygwinCCompiler_link env a =
     (let warned = (if truthy (runtime_library_dirs a) then [Warn runtime_library_dirs_msg] else []);
          passed = a\<lparr>export_symbols := None\<rparr>
      in (case UnixCCompiler_link env passed of
            Some e \<Rightarrow> (Inl e, warned @ [Call_UnixCCompiler_link passed])
          | None \<Rightarrow> (Inr (), warned @ [Call_UnixCCompiler_link passed])))"

definition CygwinCCompiler_runtime_library_dir_option ::
  "string \<Rightarrow> (error + string list) \<times> event list" where
  "CygwinCCompiler_runtime_library_dir_option dir = (Inr [], [Warn runtime_library_dirs_msg])"

definition Mingw32CCompiler_runtime_library_dir_option ::
  "string \<Rightarrow> (error + string list) \<times> event list" where
  "Mingw32CCompiler_runtime_library_dir_option dir =
     (Inl (DistutilsPlatformError runtime_library_dirs_msg), [])"

subsection \<open>\<^verbatim>\<open>is_cygwincc\<close>\<close>

text \<open>\<^verbatim>\<open>bytes.strip()\<close> removes ASCII whitespace (space, tab, LF, VT, FF, CR) at both ends.\<close>

definition is_space :: "char \<Rightarrow> bool" where
  "is_space c = ((of_char c :: nat) = 32 \<or> (9 \<le> (of_char c :: nat) \<and> (of_char c :: nat) \<le> 13))"

definition bytes_strip :: "string \<Rightarrow> string" where
  "bytes_strip s = rev (dropWhile is_space (rev (dropWhile is_space s)))"

definition endswith :: "string \<Rightarrow> string \<Rightarrow> bool" where
  "endswith s suf = (length suf \<le> length s \<and> drop (length s - length suf) s = suf)"

definition is_cygwincc :: "collaborators \<Rightarrow> string \<Rightarrow> (error + bool) \<times> event list" where
  "is_cygwincc env c =
     (case shlex_split env c of
        Inl e \<Rightarrow> (Inl e, [])
      | Inr argv \<Rightarrow>
          (case check_output env (argv @ [''-dumpmachine'']) of
             Inl e \<Rightarrow> (Inl e, [Call_check_output (argv @ [''-dumpmachine''])])
           | Inr out_string \<Rightarrow>
               (Inr (endswith (bytes_strip out_string) ''cygwin''),
                [Call_check_output (argv @ [''-dumpmachine''])])))"

text \<open>
  "The text \<open>core\<close> is \<open>s\<close> with the surrounding whitespace stripped": \<open>s\<close> is \<open>core\<close>
  between two runs of whitespace, and \<open>core\<close> neither starts nor ends with whitespace.
\<close>

definition stripped_of :: "string \<Rightarrow> string \<Rightarrow> bool" where
  "stripped_of s core =
     (\<exists>l r. s = l @ core @ r \<and> list_all is_space l \<and> list_all is_space r
        \<and> (core = [] \<or> (\<not> is_space (hd core) \<and> \<not> is_space (last core))))"

subsection \<open>\<^verbatim>\<open>Mingw32CCompiler.__init__\<close>\<close>

text \<open>
  The call of \<^verbatim>\<open>set_executables\<close> with its keyword arguments, which are formatted from
  the attributes in the order written: \<^verbatim>\<open>cc\<close>, \<^verbatim>\<open>cc\<close>, \<^verbatim>\<open>cxx\<close>, \<^verbatim>\<open>cc\<close>,
  \<^verbatim>\<open>linker_dll\<close>.
\<close>

definition configure_executables ::
  "collaborators \<Rightarrow> compiler_attrs \<Rightarrow> string \<Rightarrow> (error + unit) \<times> event list" where
  "configure_executables env self c =
     (case cxx self of
        None \<Rightarrow> (Inl (AttributeError ''cxx''), [])
      | Some cx \<Rightarrow>
          (case linker_dll self of
             None \<Rightarrow> (Inl (AttributeError ''linker_dll''), [])
           | Some ld \<Rightarrow>
               (let ex = \<lparr>compiler = c @ '' -O -Wall'',
                          compiler_so = c @ '' -mdll -O -Wall'',
                          compiler_cxx = cx @ '' -O -Wall'',
                          linker_exe = c,
                          linker_so = ld @ '' '' @ ''-shared''\<rparr>
                in (case set_executables env ex of
                      Some e \<Rightarrow> (Inl e, [Call_set_executables ex])
                    | None \<Rightarrow> (Inr (), [Call_set_executables ex])))))"

definition Mingw32CCompiler_init ::
  "collaborators \<Rightarrow> int \<Rightarrow> int \<Rightarrow> int \<Rightarrow> (error + unit) \<times> event list" where
  "Mingw32CCompiler_init env verbose dry_run force =
     (case super_init env verbose dry_run force of
        Inl e \<Rightarrow> (Inl e, [Call_super_init verbose dry_run force])
      | Inr self \<Rightarrow>
          (case cc self of
             None \<Rightarrow> (Inl (AttributeError ''cc''), [Call_super_init verbose dry_run force])
           | Some c \<Rightarrow>
               (case is_cygwincc env c of
                  (Inl e, t) \<Rightarrow> (Inl e, Call_super_init verbose dry_run force # t)
                | (Inr b, t) \<Rightarrow>
                    (if b then
                       (Inl (CCompilerError ''Cygwin gcc cannot be used with --compiler=mingw32''),
                        Call_super_init verbose dry_run force # t)
                     else
                       (case configure_executables env self c of
                          (r, t') \<Rightarrow> (r, Call_super_init verbose dry_run force # t @ t'))))))"

subsection \<open>\<^verbatim>\<open>check_config_h\<close>\<close>

definition CONFIG_H_OK :: string where "CONFIG_H_OK = ''ok''"
definition CONFIG_H_NOTOK :: string where "CONFIG_H_NOTOK = ''not ok''"
definition CONFIG_H_UNCERTAIN :: string where "CONFIG_H_UNCERTAIN = ''uncertain''"

text \<open>
  What the file system answers to \<^verbatim>\<open>open(fn)\<close>: an \<^verbatim>\<open>OSError\<close>, or a file object
  with the outcome of its \<^verbatim>\<open>read()\<close> and of its \<^verbatim>\<open>close()\<close>. An \<^verbatim>\<open>OSError\<close> carries
  the text that formatting its \<^verbatim>\<open>strerror\<close> gives.
\<close>

datatype read_outcome = Read_ok string | Read_OSError string | Read_raises error
datatype close_outcome = Close_ok | Close_OSError string
datatype open_outcome = Open_OSError string | Opened read_outcome close_outcome

definition quoted :: "string \<Rightarrow> string" where
  "quoted s = [CHR 0x27] @ s @ [CHR 0x27]"

definition couldnt_read :: "string \<Rightarrow> string \<Rightarrow> error + string \<times> string" where
  "couldnt_read fn strerror =
     Inr (CONFIG_H_UNCERTAIN, ''couldn'' @ [CHR 0x27] @ ''t read '' @ quoted fn @ '': '' @ strerror)"

text \<open>
  The arguments are \<^verbatim>\<open>sys.version\<close>, the path \<^verbatim>\<open>fn\<close> that
  \<^verbatim>\<open>sysconfig.get_config_h_filename()\<close> returns, and the answer of the file system to
  \<^verbatim>\<open>open(fn)\<close>. The \<^verbatim>\<open>finally\<close>
  clause closes the file after the body; an \<^verbatim>\<open>OSError\<close> of \<^verbatim>\<open>close()\<close> replaces
  the body's outcome and is caught by the handler like the others.
\<close>

definition check_config_h ::
  "string \<Rightarrow> string \<Rightarrow> open_outcome \<Rightarrow> error + string \<times> string" where
  "check_config_h sys_version fn config_h =
     (if contains ''GCC'' sys_version then
        Inr (CONFIG_H_OK, ''sys.version mentions '' @ quoted ''GCC'')
      else if contains ''Clang'' sys_version then
        Inr (CONFIG_H_OK, ''sys.version mentions '' @ quoted ''Clang'')
      else
        (case config_h of
           Open_OSError strerror \<Rightarrow> couldnt_read fn strerror
         | Opened r cl \<Rightarrow>
             (case cl of
                Close_OSError strerror \<Rightarrow> couldnt_read fn strerror
              | Close_ok \<Rightarrow>
                  (case r of
                     Read_ok content \<Rightarrow>
                       (if contains ''__GNUC__'' content then
                          Inr (CONFIG_H_OK, quoted fn @ '' mentions '' @ quoted ''__GNUC__'')
                        else
                          Inr (CONFIG_H_NOTOK,
                               quoted fn @ '' does not mention '' @ quoted ''__GNUC__''))
                   | Read_OSError strerror \<Rightarrow> couldnt_read fn strerror
                   | Read_raises e \<Rightarrow> Inl e))))"

text \<open>The status of a returned pair; \<open>None\<close> when the call raised.\<close>

definition status_of :: "error + string \<times> string \<Rightarrow> string option" where
  "status_of r = (case r of Inl e \<Rightarrow> None | Inr (status, details) \<Rightarrow> Some status)"

subsection \<open>Example data\<close>

text \<open>
  A build host whose compiler reports the given target triple (followed by a newline, as
  \<^verbatim>\<open>gcc -dumpmachine\<close> prints it), and the link of one extension module.
\<close>

definition gcc_attrs :: compiler_attrs where
  "gcc_attrs = \<lparr>cc = Some ''gcc'', cxx = Some ''g++'', linker_dll = Some ''gcc''\<rparr>"

definition host :: "string \<Rightarrow> collaborators" where
  "host triple =
     \<lparr>UnixCCompiler_link = (\<lambda>a. None),
      super_init = (\<lambda>verbose dry_run force. Inr gcc_attrs),
      set_executables = (\<lambda>ex. None),
      shlex_split = (\<lambda>c. Inr [c]),
      check_output = (\<lambda>argv. Inr (triple @ [CHR 0x0A]))\<rparr>"

definition ext_link :: link_args where
  "ext_link =
     \<lparr>target_desc = ''shared_object'', objects = [''build/spam.o''],
      output_filename = ''spam.dll'', output_dir = None, libraries = Some [''python39''],
      library_dirs = None, runtime_library_dirs = Some [''/usr/local/lib''],
      export_symbols = Some [''PyInit_spam''], debug = 0, extra_preargs = None,
      extra_postargs = None, build_temp = Some ''build'', target_lang = Some ''c''\<rparr>"

section \<open>Properties\<close>

subsection \<open>The range lookup and the pattern search\<close>

lemma sorted_keys_msvcr_lookup:
  "rev (sort (map fst msvcr_lookup)) = [2000, 1900, 1800, 1700, 1600, 1500, 1400, 1310, 1300]"
  by (simp add: msvcr_lookup_def)

lemma getitem_in_range:
  assumes "(lo, hi, libs) \<in> set msvcr_ranges" and "lo \<le> v" and "v < hi"
  shows "RangeMap_left_getitem msvcr_lookup v = Inr libs"
proof -
  have key: "find (\<lambda>k. k \<le> v) (rev (sort (map fst msvcr_lookup))) = Some lo"
    using assms unfolding sorted_keys_msvcr_lookup by (auto simp: msvcr_ranges_def)
  have val: "map_of (rev msvcr_lookup) lo = Some (Defined libs)"
    using assms(1) by (auto simp: msvcr_ranges_def msvcr_lookup_def)
  show ?thesis by (simp add: RangeMap_left_getitem_def key val)
qed

lemma getitem_at_or_above_top:
  assumes "2000 \<le> v"
  shows "RangeMap_left_getitem msvcr_lookup v = Inl (KeyError 2000)"
proof -
  have key: "find (\<lambda>k. k \<le> v) (rev (sort (map fst msvcr_lookup))) = Some 2000"
    using assms unfolding sorted_keys_msvcr_lookup by simp
  have val: "map_of (rev msvcr_lookup) 2000 = Some undefined_value"
    by (simp add: msvcr_lookup_def)
  show ?thesis by (simp add: RangeMap_left_getitem_def key val)
qed

lemma getitem_below_bottom:
  assumes "v < 1300"
  shows "RangeMap_left_getitem msvcr_lookup v = Inl (KeyError v)"
proof -
  have key: "find (\<lambda>k. k \<le> v) (rev (sort (map fst msvcr_lookup))) = None"
    using assms unfolding sorted_keys_msvcr_lookup by simp
  show ?thesis by (simp add: RangeMap_left_getitem_def key)
qed

lemma match_here_Some:
  assumes "match_here s = Some g"
  shows "s = ''MSC v.'' @ g @ drop 10 s \<and> length g = 4 \<and> list_all is_digit g"
proof -
  from assms have t: "take 6 s = ''MSC v.''" and g: "g = take 4 (drop 6 s)"
    and l: "length (take 4 (drop 6 s)) = 4" and d: "list_all is_digit (take 4 (drop 6 s))"
    by (auto simp: match_here_def split: if_splits)
  have "take 6 s @ take 4 (drop 6 s) @ drop 4 (drop 6 s) = s"
    by (simp only: append_take_drop_id)
  then have "s = ''MSC v.'' @ g @ drop 10 s" using t g by simp
  then show ?thesis using g l d by simp
qed

lemma match_here_marker:
  assumes "length ds = 4" and "list_all is_digit ds"
  shows "match_here (''MSC v.'' @ ds @ post) = Some ds"
  using assms by (simp add: match_here_def)

lemma re_search_Some_occurs:
  "re_search s = Some g \<Longrightarrow>
     \<exists>pre post. s = pre @ ''MSC v.'' @ g @ post \<and> length g = 4 \<and> list_all is_digit g"
proof (induction s)
  case Nil
  then show ?case by (simp add: match_here_def)
next
  case (Cons c cs)
  show ?case
  proof (cases "match_here (c # cs)")
    case (Some g')
    with Cons.prems have "g' = g" by simp
    with Some have "c # cs = [] @ ''MSC v.'' @ g @ drop 10 (c # cs) \<and> length g = 4 \<and> list_all is_digit g"
      using match_here_Some [of "c # cs" g] by simp
    then show ?thesis by blast
  next
    case None
    with Cons.prems have "re_search cs = Some g" by simp
    from Cons.IH [OF this] obtain pre post where
      "cs = pre @ ''MSC v.'' @ g @ post" "length g = 4" "list_all is_digit g" by blast
    then have "c # cs = (c # pre) @ ''MSC v.'' @ g @ post \<and> length g = 4 \<and> list_all is_digit g"
      by simp
    then show ?thesis by blast
  qed
qed

lemma re_search_marker:
  assumes "length ds = 4" and "list_all is_digit ds"
  shows "re_search (pre @ ''MSC v.'' @ ds @ post) \<noteq> None"
proof (induction pre)
  case Nil
  show ?case using match_here_marker [OF assms, of post] by simp
next
  case (Cons c pre)
  then show ?case by (simp split: option.splits)
qed

lemma re_search_None_iff: "re_search s = None \<longleftrightarrow> \<not> msc_pattern_occurs s"
proof
  assume n: "re_search s = None"
  show "\<not> msc_pattern_occurs s"
  proof
    assume "msc_pattern_occurs s"
    then obtain pre ds post where "s = pre @ ''MSC v.'' @ ds @ post" "length ds = 4" "list_all is_digit ds"
      unfolding msc_pattern_occurs_def by blast
    then have "re_search s \<noteq> None" using re_search_marker by blast
    with n show False by simp
  qed
next
  assume o: "\<not> msc_pattern_occurs s"
  show "re_search s = None"
  proof (cases "re_search s")
    case None then show ?thesis .
  next
    case (Some g)
    from re_search_Some_occurs [OF this] have "msc_pattern_occurs s"
      unfolding msc_pattern_occurs_def by blast
    with o show ?thesis by simp
  qed
qed

lemma msc_ver_None_iff: "msc_ver s = None \<longleftrightarrow> \<not> msc_pattern_occurs s"
  by (simp add: msc_ver_def re_search_None_iff)

lemma get_msvcr_None_iff: "get_msvcr s = Inr None \<longleftrightarrow> msc_ver s = None"
  by (auto simp: get_msvcr_def split: option.splits sum.splits error.splits)

lemma digit_val_le_9: "is_digit c \<Longrightarrow> digit_val c \<le> 9"
  by (auto simp: is_digit_def digit_val_def)

lemma foldl_digits_bound:
  "list_all is_digit ds \<Longrightarrow>
     foldl (\<lambda>a c. 10 * a + digit_val c) a ds < (a + 1) * 10 ^ length ds"
proof (induction ds arbitrary: a)
  case Nil
  then show ?case by simp
next
  case (Cons d ds)
  then have d: "digit_val d \<le> 9" and rest: "list_all is_digit ds"
    by (simp_all add: digit_val_le_9)
  have "foldl (\<lambda>a c. 10 * a + digit_val c) (10 * a + digit_val d) ds
          < (10 * a + digit_val d + 1) * 10 ^ length ds"
    by (rule Cons.IH [OF rest])
  also have "\<dots> \<le> (10 * a + 10) * 10 ^ length ds"
    using d by (intro mult_le_mono1) simp
  also have "\<dots> = (a + 1) * 10 ^ length (d # ds)" by (simp add: algebra_simps)
  finally show ?case by simp
qed

lemma msc_ver_four_digits: "msc_ver s = Some v \<Longrightarrow> v < 10000"
proof -
  assume "msc_ver s = Some v"
  then obtain g where g: "re_search s = Some g" and v: "v = int_of_digits g"
    by (auto simp: msc_ver_def)
  from re_search_Some_occurs [OF g] have "length g = 4" and "list_all is_digit g" by auto
  with foldl_digits_bound [of g 0] show ?thesis by (simp add: v int_of_digits_def)
qed

lemma match_here_not_M: "c \<noteq> CHR ''M'' \<Longrightarrow> match_here (c # cs) = None"
  by (auto simp: match_here_def take_Cons')

lemma msc_ver_first_marker:
  assumes "CHR ''M'' \<notin> set pre" and "length ds = 4" and "list_all is_digit ds"
  shows "msc_ver (pre @ ''MSC v.'' @ ds @ post) = Some (int_of_digits ds)"
proof -
  have "re_search (pre @ ''MSC v.'' @ ds @ post) = Some ds"
    using assms(1)
  proof (induction pre)
    case Nil
    show ?case using match_here_marker [OF assms(2,3), of post] by simp
  next
    case (Cons c pre)
    then have "match_here (c # pre @ ''MSC v.'' @ ds @ post) = None"
      by (intro match_here_not_M) auto
    with Cons show ?case by simp
  qed
  then show ?thesis by (simp add: msc_ver_def)
qed

text \<open>
  Claim C1. When \<^verbatim>\<open>sys.version\<close> carries the version \<open>v\<close> under the pattern and \<open>v\<close>
  lies in one of the listed ranges, from its lower bound up to but excluding its upper
  bound, \<^verbatim>\<open>get_msvcr\<close> returns exactly the list of that range.
\<close>

theorem get_msvcr_in_range:
  assumes "msc_ver sys_version = Some v"
    and "(lo, hi, libs) \<in> set msvcr_ranges" and "lo \<le> v" and "v < hi"
  shows "get_msvcr sys_version = Inr (Some libs)"
  using assms(1) getitem_in_range [OF assms(2-4)] by (simp add: get_msvcr_def)

theorem get_msvcr_in_range_witness:
  "get_msvcr ''3.8.0 (default) [MSC v.1916 64 bit (AMD64)]'' = Inr (Some [''vcruntime140''])"
proof -
  have a: "msc_ver ''3.8.0 (default) [MSC v.1916 64 bit (AMD64)]'' = Some 1916" by code_simp
  have b: "(1900, 2000, [''vcruntime140'']) \<in> set msvcr_ranges" by (simp add: msvcr_ranges_def)
  show ?thesis using get_msvcr_in_range [OF a b] by simp
qed

text \<open>
  Claim C2. For every parsed version at or above the topmost boundary 2000,
  \<^verbatim>\<open>get_msvcr\<close> raises the \<^verbatim>\<open>ValueError\<close> whose message holds the version number in
  decimal; it neither returns a list nor returns \<^verbatim>\<open>None\<close>.
\<close>

theorem get_msvcr_at_or_above_top:
  assumes "msc_ver sys_version = Some v" and "2000 \<le> v"
  shows "get_msvcr sys_version = Inl (ValueError (''Unknown MS Compiler version '' @ str_nat v @ '' ''))"
  using assms(1) getitem_at_or_above_top [OF assms(2)]
  by (simp add: get_msvcr_def unknown_version_msg_def)

theorem get_msvcr_at_or_above_top_witness:
  "get_msvcr ''3.14.0 [MSC v.2000 64 bit (AMD64)]'' =
     Inl (ValueError ''Unknown MS Compiler version 2000 '')"
proof -
  have a: "msc_ver ''3.14.0 [MSC v.2000 64 bit (AMD64)]'' = Some 2000" by code_simp
  have b: "str_nat 2000 = ''2000''" by code_simp
  show ?thesis using get_msvcr_at_or_above_top [OF a] b by simp
qed

text \<open>
  Claim C3. For every text in which the marker \<^verbatim>\<open>MSC v.\<close> followed by four digits does
  not occur, \<^verbatim>\<open>get_msvcr\<close> returns \<^verbatim>\<open>None\<close> and raises nothing.
\<close>

theorem get_msvcr_no_marker:
  assumes "\<not> msc_pattern_occurs sys_version"
  shows "get_msvcr sys_version = Inr None"
  using assms by (simp add: get_msvcr_None_iff msc_ver_None_iff)

theorem get_msvcr_no_marker_witness:
  "get_msvcr ''3.9.7 (default) [GCC 9.3.0]'' = Inr None"
proof -
  have "re_search ''3.9.7 (default) [GCC 9.3.0]'' = None" by code_simp
  then have "\<not> msc_pattern_occurs ''3.9.7 (default) [GCC 9.3.0]''"
    using re_search_None_iff [of "''3.9.7 (default) [GCC 9.3.0]''"] by blast
  then show ?thesis by (rule get_msvcr_no_marker)
qed

text \<open>
  Claim C9. A parsed version below the lowest boundary 1300 raises the same
  \<^verbatim>\<open>ValueError\<close> as one at or above the top, and \<^verbatim>\<open>get_msvcr\<close> returns \<^verbatim>\<open>None\<close>
  exactly when the pattern is absent from the text.
\<close>

theorem get_msvcr_below_bottom:
  "(msc_ver sys_version = Some v \<and> v < 1300 \<longrightarrow>
      get_msvcr sys_version = Inl (ValueError (''Unknown MS Compiler version '' @ str_nat v @ '' '')))
   \<and> (get_msvcr sys_version = Inr None \<longleftrightarrow> \<not> msc_pattern_occurs sys_version)"
proof (intro conjI impI)
  assume a: "msc_ver sys_version = Some v \<and> v < 1300"
  then have "RangeMap_left_getitem msvcr_lookup v = Inl (KeyError v)"
    by (simp add: getitem_below_bottom)
  with a show "get_msvcr sys_version = Inl (ValueError (''Unknown MS Compiler version '' @ str_nat v @ '' ''))"
    by (simp add: get_msvcr_def unknown_version_msg_def)
next
  show "get_msvcr sys_version = Inr None \<longleftrightarrow> \<not> msc_pattern_occurs sys_version"
    by (simp add: get_msvcr_None_iff msc_ver_None_iff)
qed

theorem get_msvcr_below_bottom_witness:
  "get_msvcr ''2.3 [MSC v.1200 32 bit (Intel)]'' = Inl (ValueError ''Unknown MS Compiler version 1200 '')
   \<and> msc_pattern_occurs ''2.3 [MSC v.1200 32 bit (Intel)]''"
proof -
  have a: "msc_ver ''2.3 [MSC v.1200 32 bit (Intel)]'' = Some 1200" by code_simp
  have b: "str_nat 1200 = ''1200''" by code_simp
  have c: "get_msvcr ''2.3 [MSC v.1200 32 bit (Intel)]'' = Inl (ValueError ''Unknown MS Compiler version 1200 '')"
    using get_msvcr_below_bottom [of "''2.3 [MSC v.1200 32 bit (Intel)]''" 1200] a b by simp
  then have "get_msvcr ''2.3 [MSC v.1200 32 bit (Intel)]'' \<noteq> Inr None" by simp
  then have "msc_pattern_occurs ''2.3 [MSC v.1200 32 bit (Intel)]''"
    using get_msvcr_below_bottom [of "''2.3 [MSC v.1200 32 bit (Intel)]''" 1200] by blast
  with c show ?thesis by simp
qed

subsection \<open>Text helpers\<close>

lemma contains_iff_sublist: "contains needle hay \<longleftrightarrow> sublist needle hay"
  by (induction hay) (auto simp: sublist_Cons_right)

lemma endswith_iff_suffix: "endswith s suf \<longleftrightarrow> suffix suf s"
proof
  assume "endswith s suf"
  then have "drop (length s - length suf) s = suf" by (simp add: endswith_def)
  then have "s = take (length s - length suf) s @ suf"
    by (metis append_take_drop_id)
  then show "suffix suf s" unfolding suffix_def by blast
next
  assume "suffix suf s"
  then obtain zs where "s = zs @ suf" unfolding suffix_def by blast
  then show "endswith s suf" by (simp add: endswith_def)
qed

lemma bytes_strip_stripped_of: "stripped_of s (bytes_strip s)"
proof -
  define l where "l = takeWhile is_space s"
  define m where "m = dropWhile is_space s"
  define r where "r = rev (takeWhile is_space (rev m))"
  have core: "bytes_strip s = rev (dropWhile is_space (rev m))"
    by (simp add: bytes_strip_def m_def)
  have "takeWhile is_space (rev m) @ dropWhile is_space (rev m) = rev m"
    by (rule takeWhile_dropWhile_id)
  then have "rev (takeWhile is_space (rev m) @ dropWhile is_space (rev m)) = rev (rev m)"
    by (simp only:)
  then have m: "bytes_strip s @ r = m"
    unfolding core r_def by (simp only: rev_append rev_rev_ident)
  have "l @ m = s" unfolding l_def m_def by (rule takeWhile_dropWhile_id)
  with m have s: "s = l @ bytes_strip s @ r" by simp
  have wl: "list_all is_space l"
    unfolding l_def list_all_iff by (auto dest: set_takeWhileD)
  have wr: "list_all is_space r"
    unfolding r_def list_all_iff by (auto dest: set_takeWhileD)
  have ends: "bytes_strip s = [] \<or> (\<not> is_space (hd (bytes_strip s)) \<and> \<not> is_space (last (bytes_strip s)))"
  proof (cases "bytes_strip s = []")
    case True then show ?thesis by simp
  next
    case False
    then have ne: "dropWhile is_space (rev m) \<noteq> []" by (simp add: core)
    then have a: "\<not> is_space (hd (dropWhile is_space (rev m)))" by (rule hd_dropWhile)
    have "last (bytes_strip s) = hd (dropWhile is_space (rev m))"
      using ne by (simp add: core last_rev)
    with a have la: "\<not> is_space (last (bytes_strip s))" by simp
    have mne: "m \<noteq> []" using m False by auto
    then have "\<not> is_space (hd m)" unfolding m_def by (rule hd_dropWhile)
    moreover have "hd m = hd (bytes_strip s)" using m False by (metis hd_append2)
    ultimately show ?thesis using la by simp
  qed
  show ?thesis unfolding stripped_of_def using s wl wr ends by blast
qed

lemma stripped_of_unique:
  assumes "stripped_of s core"
  shows "core = bytes_strip s"
proof -
  from assms obtain l r where s: "s = l @ core @ r" and wl: "list_all is_space l"
    and wr: "list_all is_space r"
    and ends: "core = [] \<or> (\<not> is_space (hd core) \<and> \<not> is_space (last core))"
    unfolding stripped_of_def by blast
  have d1: "dropWhile is_space s = dropWhile is_space (core @ r)"
    unfolding s using wl by (simp add: dropWhile_append2 list_all_iff)
  show ?thesis
  proof (cases "core = []")
    case True
    have "dropWhile is_space s = []" using d1 True wr by (simp add: list_all_iff)
    then have "bytes_strip s = []" by (simp only: bytes_strip_def rev.simps dropWhile.simps)
    with True show ?thesis by simp
  next
    case False
    with ends have h: "\<not> is_space (hd core)" and t: "\<not> is_space (last core)" by simp_all
    have "dropWhile is_space (core @ r) = core @ r"
      using False h by (cases core) simp_all
    then have d2: "rev (dropWhile is_space s) = rev r @ rev core" using d1 by simp
    have "\<And>x. x \<in> set (rev r) \<Longrightarrow> is_space x" using wr by (simp add: list_all_iff)
    then have "dropWhile is_space (rev r @ rev core) = dropWhile is_space (rev core)"
      by (rule dropWhile_append2)
    also have "\<dots> = rev core"
      using False t by (cases "rev core") (auto simp: last_rev hd_rev)
    finally show ?thesis by (simp add: bytes_strip_def d2)
  qed
qed

lemma is_cygwincc_trace: "set (snd (is_cygwincc env c)) \<subseteq> range Call_check_output"
  by (auto simp: is_cygwincc_def split: sum.splits)

lemma is_cygwincc_cygwin_host:
  "is_cygwincc (host ''x86_64-pc-cygwin'') ''gcc'' =
     (Inr True, [Call_check_output [''gcc'', ''-dumpmachine'']])"
  by (simp add: is_cygwincc_def host_def endswith_def bytes_strip_def is_space_def)

lemma is_cygwincc_mingw_host:
  "is_cygwincc (host ''x86_64-w64-mingw32'') ''gcc'' =
     (Inr False, [Call_check_output [''gcc'', ''-dumpmachine'']])"
  by (simp add: is_cygwincc_def host_def endswith_def bytes_strip_def is_space_def)

lemma Mingw32CCompiler_init_mingw_host:
  "Mingw32CCompiler_init (host ''x86_64-w64-mingw32'') 0 0 0 =
     (Inr (),
      [Call_super_init 0 0 0, Call_check_output [''gcc'', ''-dumpmachine''],
       Call_set_executables
         \<lparr>compiler = ''gcc -O -Wall'', compiler_so = ''gcc -mdll -O -Wall'',
          compiler_cxx = ''g++ -O -Wall'', linker_exe = ''gcc'', linker_so = ''gcc -shared''\<rparr>])"
proof -
  have a: "super_init (host ''x86_64-w64-mingw32'') 0 0 0 = Inr gcc_attrs" by (simp add: host_def)
  have b: "set_executables (host ''x86_64-w64-mingw32'') = (\<lambda>ex. None)" by (simp add: host_def)
  show ?thesis
    by (simp add: Mingw32CCompiler_init_def a is_cygwincc_mingw_host configure_executables_def b
        gcc_attrs_def)
qed

subsection \<open>The compiler classes and the checks\<close>

text \<open>
  Claim C4. \<^verbatim>\<open>CygwinCCompiler.link\<close> with a non-empty \<^verbatim>\<open>runtime_library_dirs\<close> gives
  the fixed warning and then calls the base class's link; it always makes that call, with
  the arguments it was given (only \<^verbatim>\<open>export_symbols\<close> replaced), so it adds no linker
  flag. \<^verbatim>\<open>CygwinCCompiler.runtime_library_dir_option\<close> gives the same warning and returns
  the empty list for every directory.
\<close>

theorem CygwinCCompiler_runtime_library_dirs_warning:
  "(\<forall>ds. runtime_library_dirs a = Some ds \<and> ds \<noteq> [] \<longrightarrow>
      snd (CygwinCCompiler_link env a) =
        [Warn runtime_library_dirs_msg, Call_UnixCCompiler_link (a\<lparr>export_symbols := None\<rparr>)])
   \<and> Call_UnixCCompiler_link (a\<lparr>export_symbols := None\<rparr>) \<in> set (snd (CygwinCCompiler_link env a))
   \<and> CygwinCCompiler_runtime_library_dir_option dir = (Inr [], [Warn runtime_library_dirs_msg])"
proof (intro conjI allI impI)
  fix ds
  assume "runtime_library_dirs a = Some ds \<and> ds \<noteq> []"
  then have "truthy (runtime_library_dirs a)" by (cases ds) simp_all
  then show "snd (CygwinCCompiler_link env a) =
        [Warn runtime_library_dirs_msg, Call_UnixCCompiler_link (a\<lparr>export_symbols := None\<rparr>)]"
    by (simp add: CygwinCCompiler_link_def Let_def split: option.splits)
next
  show "Call_UnixCCompiler_link (a\<lparr>export_symbols := None\<rparr>) \<in> set (snd (CygwinCCompiler_link env a))"
    by (simp add: CygwinCCompiler_link_def Let_def split: option.splits)
next
  show "CygwinCCompiler_runtime_library_dir_option dir = (Inr [], [Warn runtime_library_dirs_msg])"
    by (simp add: CygwinCCompiler_runtime_library_dir_option_def)
qed

theorem CygwinCCompiler_runtime_library_dirs_warning_witness:
  "snd (CygwinCCompiler_link (host ''x86_64-pc-cygwin'') ext_link) =
     [Warn runtime_library_dirs_msg, Call_UnixCCompiler_link (ext_link\<lparr>export_symbols := None\<rparr>)]
   \<and> CygwinCCompiler_runtime_library_dir_option ''/usr/local/lib'' =
       (Inr [], [Warn runtime_library_dirs_msg])"
proof -
  have "runtime_library_dirs ext_link = Some [''/usr/local/lib''] \<and> [''/usr/local/lib''] \<noteq> []"
    by (simp add: ext_link_def)
  then show ?thesis
    using CygwinCCompiler_runtime_library_dirs_warning
      [of ext_link "host ''x86_64-pc-cygwin''" "''/usr/local/lib''"]
    by blast
qed

text \<open>
  Claim C5. \<^verbatim>\<open>Mingw32CCompiler.runtime_library_dir_option\<close> raises
  \<^verbatim>\<open>DistutilsPlatformError\<close> with the fixed message for every directory, and warns
  nothing before.
\<close>

theorem Mingw32CCompiler_runtime_library_dir_option_raises:
  "Mingw32CCompiler_runtime_library_dir_option dir =
     (Inl (DistutilsPlatformError
        (''Unable to set runtime library search path on Windows, '' @
         ''usually indicated by `runtime_library_dirs` parameter to Extension'')), [])"
  by (simp add: Mingw32CCompiler_runtime_library_dir_option_def runtime_library_dirs_msg_def)

text \<open>
  Claim C6. When the inherited constructor has returned and \<^verbatim>\<open>is_cygwincc(self.cc)\<close>
  answers \<^verbatim>\<open>True\<close>, \<^verbatim>\<open>Mingw32CCompiler.__init__\<close> raises \<^verbatim>\<open>CCompilerError\<close>; all
  it has done by then is the inherited constructor and the identity check, and
  \<^verbatim>\<open>set_executables\<close> is not called.
\<close>

theorem Mingw32CCompiler_init_rejects_cygwin:
  assumes "super_init env verbose dry_run force = Inr self"
    and "cc self = Some c"
    and "fst (is_cygwincc env c) = Inr True"
  shows "fst (Mingw32CCompiler_init env verbose dry_run force) =
           Inl (CCompilerError ''Cygwin gcc cannot be used with --compiler=mingw32'')
         \<and> snd (Mingw32CCompiler_init env verbose dry_run force) =
             Call_super_init verbose dry_run force # snd (is_cygwincc env c)
         \<and> (\<forall>ex. Call_set_executables ex \<notin> set (snd (Mingw32CCompiler_init env verbose dry_run force)))"
proof -
  obtain t where ic: "is_cygwincc env c = (Inr True, t)"
    using assms(3) by (cases "is_cygwincc env c") simp
  have r: "Mingw32CCompiler_init env verbose dry_run force =
             (Inl (CCompilerError ''Cygwin gcc cannot be used with --compiler=mingw32''),
              Call_super_init verbose dry_run force # t)"
    by (simp add: Mingw32CCompiler_init_def assms(1,2) ic)
  have "set t \<subseteq> range Call_check_output" using is_cygwincc_trace [of env c] ic by simp
  then have "\<forall>ex. Call_set_executables ex \<notin> set t" by auto
  then show ?thesis using r ic by simp
qed

theorem Mingw32CCompiler_init_rejects_cygwin_witness:
  "fst (Mingw32CCompiler_init (host ''x86_64-pc-cygwin'') 0 0 0) =
     Inl (CCompilerError ''Cygwin gcc cannot be used with --compiler=mingw32'')
   \<and> snd (Mingw32CCompiler_init (host ''x86_64-pc-cygwin'') 0 0 0) =
       [Call_super_init 0 0 0, Call_check_output [''gcc'', ''-dumpmachine'']]"
proof -
  have a: "super_init (host ''x86_64-pc-cygwin'') 0 0 0 = Inr gcc_attrs" by (simp add: host_def)
  have b: "cc gcc_attrs = Some ''gcc''" by (simp add: gcc_attrs_def)
  have c: "fst (is_cygwincc (host ''x86_64-pc-cygwin'') ''gcc'') = Inr True"
    by (simp add: is_cygwincc_cygwin_host)
  show ?thesis
    using Mingw32CCompiler_init_rejects_cygwin [OF a b c] by (simp add: is_cygwincc_cygwin_host)
qed

text \<open>
  Claim C7 says that \<^verbatim>\<open>check_config_h\<close> returns \<^verbatim>\<open>CONFIG_H_UNCERTAIN\<close> whenever the
  configuration header does not exist. The function looks at \<^verbatim>\<open>sys.version\<close> first and
  returns \<^verbatim>\<open>CONFIG_H_OK\<close> without opening the file when it mentions \<^verbatim>\<open>GCC\<close> (or
  \<^verbatim>\<open>Clang\<close>), as its docstring announces: with such a version text the status for a
  missing header is not \<^verbatim>\<open>CONFIG_H_UNCERTAIN\<close>.
\<close>

theorem check_config_h_gcc_counterexample:
  "status_of (check_config_h ''3.9.7 (default) [GCC 9.3.0]'' ''pyconfig.h''
               (Open_OSError ''No such file or directory'')) \<noteq> Some CONFIG_H_UNCERTAIN"
  by (simp add: check_config_h_def status_of_def CONFIG_H_OK_def CONFIG_H_UNCERTAIN_def)

text \<open>
  Claim C7, amended. When \<^verbatim>\<open>sys.version\<close> mentions neither \<^verbatim>\<open>GCC\<close> nor \<^verbatim>\<open>Clang\<close>
  and opening the configuration header fails with an \<^verbatim>\<open>OSError\<close> (the file does not
  exist), or reading or closing it does, \<^verbatim>\<open>check_config_h\<close> returns
  \<^verbatim>\<open>CONFIG_H_UNCERTAIN\<close> with the details \<^verbatim>\<open>couldn't read '<fn>': <strerror>\<close>.
\<close>

theorem check_config_h_unreadable:
  assumes "\<not> contains ''GCC'' sys_version" and "\<not> contains ''Clang'' sys_version"
    and "config_h = Open_OSError strerror
         \<or> config_h = Opened (Read_OSError strerror) Close_ok
         \<or> config_h = Opened r (Close_OSError strerror)"
  shows "check_config_h sys_version fn config_h =
           Inr (CONFIG_H_UNCERTAIN,
                ''couldn'' @ [CHR 0x27] @ ''t read '' @ [CHR 0x27] @ fn @ [CHR 0x27] @ '': '' @ strerror)"
  using assms by (auto simp: check_config_h_def couldnt_read_def quoted_def)

theorem check_config_h_unreadable_witness:
  "check_config_h ''3.8.0 [MSC v.1916 64 bit (AMD64)]'' ''pyconfig.h''
     (Open_OSError ''No such file or directory'') =
   Inr (''uncertain'',
        ''couldn'' @ [CHR 0x27] @ ''t read '' @ [CHR 0x27] @ ''pyconfig.h'' @ [CHR 0x27] @
        '': No such file or directory'')"
proof -
  have a: "\<not> contains ''GCC'' ''3.8.0 [MSC v.1916 64 bit (AMD64)]''" by code_simp
  have b: "\<not> contains ''Clang'' ''3.8.0 [MSC v.1916 64 bit (AMD64)]''" by code_simp
  show ?thesis
    using check_config_h_unreadable [OF a b, of "Open_OSError ''No such file or directory''"
        "''No such file or directory''" undefined "''pyconfig.h''"]
    by (simp add: CONFIG_H_UNCERTAIN_def)
qed

text \<open>
  Claim C8. \<^verbatim>\<open>is_cygwincc\<close> runs the words of the compiler command followed by
  \<^verbatim>\<open>-dumpmachine\<close>, and when that run gives its output the function returns \<^verbatim>\<open>True\<close>
  exactly when the output, with the surrounding whitespace stripped, ends with
  \<^verbatim>\<open>cygwin\<close>.
\<close>

theorem is_cygwincc_dumpmachine:
  assumes "shlex_split env c = Inr argv"
    and "check_output env (argv @ [''-dumpmachine'']) = Inr out_string"
  shows "snd (is_cygwincc env c) = [Call_check_output (argv @ [''-dumpmachine''])]
         \<and> (\<exists>b. fst (is_cygwincc env c) = Inr b
               \<and> (b \<longleftrightarrow> (\<exists>core. stripped_of out_string core \<and> suffix ''cygwin'' core)))"
proof -
  have r: "is_cygwincc env c =
             (Inr (endswith (bytes_strip out_string) ''cygwin''),
              [Call_check_output (argv @ [''-dumpmachine''])])"
    by (simp add: is_cygwincc_def assms)
  have "endswith (bytes_strip out_string) ''cygwin'' \<longleftrightarrow>
          (\<exists>core. stripped_of out_string core \<and> suffix ''cygwin'' core)"
  proof
    assume "endswith (bytes_strip out_string) ''cygwin''"
    then have "suffix ''cygwin'' (bytes_strip out_string)" by (simp add: endswith_iff_suffix)
    with bytes_strip_stripped_of show "\<exists>core. stripped_of out_string core \<and> suffix ''cygwin'' core"
      by blast
  next
    assume "\<exists>core. stripped_of out_string core \<and> suffix ''cygwin'' core"
    then obtain core where "stripped_of out_string core" and s: "suffix ''cygwin'' core" by blast
    then have "core = bytes_strip out_string" by (simp add: stripped_of_unique)
    with s show "endswith (bytes_strip out_string) ''cygwin''" by (simp add: endswith_iff_suffix)
  qed
  with r show ?thesis by simp
qed

theorem is_cygwincc_dumpmachine_witness:
  "snd (is_cygwincc (host ''x86_64-pc-cygwin'') ''gcc'') = [Call_check_output [''gcc'', ''-dumpmachine'']]
   \<and> fst (is_cygwincc (host ''x86_64-pc-cygwin'') ''gcc'') = Inr True
   \<and> (\<exists>core. stripped_of (''x86_64-pc-cygwin'' @ [CHR 0x0A]) core \<and> suffix ''cygwin'' core)"
proof -
  have a: "shlex_split (host ''x86_64-pc-cygwin'') ''gcc'' = Inr [''gcc'']" by (simp add: host_def)
  have b: "check_output (host ''x86_64-pc-cygwin'') ([''gcc''] @ [''-dumpmachine'']) =
             Inr (''x86_64-pc-cygwin'' @ [CHR 0x0A])"
    by (simp add: host_def)
  show ?thesis
    using is_cygwincc_dumpmachine [OF a b] by (simp add: is_cygwincc_cygwin_host)
qed

text \<open>
  Claim C10. \<^verbatim>\<open>CygwinCCompiler.link\<close> ignores its \<^verbatim>\<open>export_symbols\<close> argument: whatever
  value is given, it calls the base class's link with the other arguments as given and
  \<^verbatim>\<open>export_symbols\<close> replaced by \<^verbatim>\<open>None\<close>, it makes no other call of that link, and
  its outcome is that of this call. So two calls that differ in \<^verbatim>\<open>export_symbols\<close> only
  have the same result and the same effects.
\<close>

theorem CygwinCCompiler_link_ignores_export_symbols:
  "CygwinCCompiler_link env (a\<lparr>export_symbols := given\<rparr>) =
     CygwinCCompiler_link env (a\<lparr>export_symbols := other\<rparr>)
   \<and> Call_UnixCCompiler_link (a\<lparr>export_symbols := None\<rparr>)
         \<in> set (snd (CygwinCCompiler_link env (a\<lparr>export_symbols := given\<rparr>)))
   \<and> (\<forall>p. Call_UnixCCompiler_link p
               \<in> set (snd (CygwinCCompiler_link env (a\<lparr>export_symbols := given\<rparr>))) \<longrightarrow>
          p = a\<lparr>export_symbols := None\<rparr>)
   \<and> fst (CygwinCCompiler_link env (a\<lparr>export_symbols := given\<rparr>)) =
       (case UnixCCompiler_link env (a\<lparr>export_symbols := None\<rparr>) of
          None \<Rightarrow> Inr () | Some e \<Rightarrow> Inl e)"
proof (intro conjI allI impI)
  show "CygwinCCompiler_link env (a\<lparr>export_symbols := given\<rparr>) =
          CygwinCCompiler_link env (a\<lparr>export_symbols := other\<rparr>)"
    by (simp add: CygwinCCompiler_link_def Let_def)
next
  show "Call_UnixCCompiler_link (a\<lparr>export_symbols := None\<rparr>)
          \<in> set (snd (CygwinCCompiler_link env (a\<lparr>export_symbols := given\<rparr>)))"
    by (simp add: CygwinCCompiler_link_def Let_def split: option.splits)
next
  fix p
  assume "Call_UnixCCompiler_link p
            \<in> set (snd (CygwinCCompiler_link env (a\<lparr>export_symbols := given\<rparr>)))"
  then show "p = a\<lparr>export_symbols := None\<rparr>"
    by (auto simp: CygwinCCompiler_link_def Let_def split: option.splits if_splits)
next
  show "fst (CygwinCCompiler_link env (a\<lparr>export_symbols := given\<rparr>)) =
          (case UnixCCompiler_link env (a\<lparr>export_symbols := None\<rparr>) of
             None \<Rightarrow> Inr () | Some e \<Rightarrow> Inl e)"
    by (simp add: CygwinCCompiler_link_def Let_def split: option.splits)
qed

theorem CygwinCCompiler_link_ignores_export_symbols_witness:
  "export_symbols ext_link = Some [''PyInit_spam'']
   \<and> CygwinCCompiler_link (host ''x86_64-pc-cygwin'') ext_link =
       CygwinCCompiler_link (host ''x86_64-pc-cygwin'') (ext_link\<lparr>export_symbols := None\<rparr>)
   \<and> Call_UnixCCompiler_link (ext_link\<lparr>export_symbols := None\<rparr>)
         \<in> set (snd (CygwinCCompiler_link (host ''x86_64-pc-cygwin'') ext_link))
   \<and> fst (CygwinCCompiler_link (host ''x86_64-pc-cygwin'') ext_link) = Inr ()"
proof -
  have same: "ext_link\<lparr>export_symbols := Some [''PyInit_spam'']\<rparr> = ext_link"
    by (simp add: ext_link_def)
  have given: "export_symbols ext_link = Some [''PyInit_spam'']"
    by (simp add: ext_link_def)
  have base: "UnixCCompiler_link (host ''x86_64-pc-cygwin'') (ext_link\<lparr>export_symbols := None\<rparr>) = None"
    by (simp add: host_def)
  have t:
    "CygwinCCompiler_link (host ''x86_64-pc-cygwin'') ext_link =
       CygwinCCompiler_link (host ''x86_64-pc-cygwin'') (ext_link\<lparr>export_symbols := None\<rparr>)
     \<and> Call_UnixCCompiler_link (ext_link\<lparr>export_symbols := None\<rparr>)
           \<in> set (snd (CygwinCCompiler_link (host ''x86_64-pc-cygwin'') ext_link))
     \<and> (\<forall>p. Call_UnixCCompiler_link p
                 \<in> set (snd (CygwinCCompiler_link (host ''x86_64-pc-cygwin'') ext_link)) \<longrightarrow>
            p = ext_link\<lparr>export_symbols := None\<rparr>)
     \<and> fst (CygwinCCompiler_link (host ''x86_64-pc-cygwin'') ext_link) =
         (case UnixCCompiler_link (host ''x86_64-pc-cygwin'') (ext_link\<lparr>export_symbols := None\<rparr>) of
            None \<Rightarrow> Inr () | Some e \<Rightarrow> Inl e)"
    using CygwinCCompiler_link_ignores_export_symbols
      [where env = "host ''x86_64-pc-cygwin''" and a = ext_link
         and given = "Some [''PyInit_spam'']" and other = None]
    unfolding same .
  from t have eq: "CygwinCCompiler_link (host ''x86_64-pc-cygwin'') ext_link =
       CygwinCCompiler_link (host ''x86_64-pc-cygwin'') (ext_link\<lparr>export_symbols := None\<rparr>)"
    by (rule conjunct1)
  from t have called: "Call_UnixCCompiler_link (ext_link\<lparr>export_symbols := None\<rparr>)
           \<in> set (snd (CygwinCCompiler_link (host ''x86_64-pc-cygwin'') ext_link))"
    by blast
  from t have "fst (CygwinCCompiler_link (host ''x86_64-pc-cygwin'') ext_link) =
         (case UnixCCompiler_link (host ''x86_64-pc-cygwin'') (ext_link\<lparr>export_symbols := None\<rparr>) of
            None \<Rightarrow> Inr () | Some e \<Rightarrow> Inl e)"
    by blast
  then have outcome: "fst (CygwinCCompiler_link (host ''x86_64-pc-cygwin'') ext_link) = Inr ()"
    unfolding base by simp
  show ?thesis using given eq called outcome by blast
qed

end
